theory Spec2Isabelle
  imports Complex_Main "HOL-Library.Sublist" "HOL-Library.AList"
begin

section \<open>Python string operations used by the pipeline\<close>

text \<open>
  Strings are \<^typ>\<open>string\<close>. Only the operations the sources call are modelled:
  \<^verbatim>\<open>str.strip()\<close>, \<^verbatim>\<open>str.split(sep)\<close> with a one-character separator,
  \<^verbatim>\<open>sep.join(xs)\<close>, \<^verbatim>\<open>c in s\<close>, \<^verbatim>\<open>str.startswith\<close> (as \<^const>\<open>prefix\<close>) and
  \<^verbatim>\<open>str.count(sub)\<close>.
\<close>

definition NL :: char where
  "NL = CHR 0x0A"

definition COLON :: char where
  "COLON = CHR '':''"

text \<open>The characters \<^verbatim>\<open>str.strip()\<close> removes, within the ASCII range:
  TAB, LF, VT, FF, CR, the separators FS, GS, RS, US, and the space.\<close>

definition isspace :: "char \<Rightarrow> bool" where
  "isspace c = (c = CHR 0x09 \<or> c = CHR 0x0A \<or> c = CHR 0x0B \<or> c = CHR 0x0C \<or> c = CHR 0x0D
     \<or> c = CHR 0x1C \<or> c = CHR 0x1D \<or> c = CHR 0x1E \<or> c = CHR 0x1F \<or> c = CHR '' '')"

definition strip :: "string \<Rightarrow> string" where
  "strip s = rev (dropWhile isspace (rev (dropWhile isspace s)))"

text \<open>\<^verbatim>\<open>s.split(c)\<close>: the result is never empty; \<^verbatim>\<open>''.split(c) == ['']\<close>.\<close>

fun split_on :: "char \<Rightarrow> string \<Rightarrow> string list" where
  "split_on c [] = [Nil]"
| "split_on c (x # xs) =
     (if x = c then [] # split_on c xs
      else (case split_on c xs of
              [] \<Rightarrow> [x # Nil]
            | y # ys \<Rightarrow> (x # y) # ys))"

fun join :: "string \<Rightarrow> string list \<Rightarrow> string" where
  "join sep [] = []"
| "join sep [x] = x"
| "join sep (x # y # ys) = x @ sep @ join sep (y # ys)"

text \<open>\<^verbatim>\<open>text.count(sub)\<close>: the number of non-overlapping occurrences, scanning from
  the left; the empty pattern occurs \<^verbatim>\<open>len(text) + 1\<close> times.\<close>

fun count_sub :: "string \<Rightarrow> string \<Rightarrow> nat" where
  "count_sub sub s =
     (if sub = [] then Suc (length s)
      else if s = [] then 0
      else if prefix sub s then Suc (count_sub sub (drop (length sub) s))
      else count_sub sub (tl s))"

declare count_sub.simps [simp del]

section \<open>The novelty tracker (experimental/novelty\_tracker.py)\<close>

definition novelty_weight :: real where
  "novelty_weight = 3 / 10"

definition history_size_config :: nat where
  "history_size_config = 1000"

definition baseline_period :: nat where
  "baseline_period = 100"

datatype error = ValueError | IndexError

text \<open>The dataclass \<^verbatim>\<open>BaselineMetrics\<close>: what the one-time snapshot holds.\<close>

record BaselineMetrics =
  timestamp :: string
  total_responses :: nat
  unique_keys :: nat
  unique_values :: nat
  avg_response_length :: real
  key_diversity :: real
  value_diversity :: real
  mean_attention :: "real option"
  attention_std :: "real option"
  attention_max :: "real option"
  attention_min :: "real option"

text \<open>
  The two files \<^verbatim>\<open>_save_baseline_metrics\<close> writes. Both live in the directory of
  \<^verbatim>\<open>DATASET_FILE\<close>, a module-level name that novelty\_tracker.py uses without defining; it is
  a parameter of the model. \<open>SiblingOf f name\<close> stands for
  \<^verbatim>\<open>os.path.join(os.path.dirname(f), name)\<close>.
\<close>

datatype path = SiblingOf string string

datatype file_content =
    BaselineJson BaselineMetrics
  | AttentionJson string "real list list list"

type_synonym fs_write = "path \<times> file_content"

text \<open>One persona's entry of an analysis record, and the record itself: an ordered
  mapping from persona id to entry. \<open>Opaque\<close> is a value that is not a dict with a
  \<^verbatim>\<open>'response'\<close> key; \<^verbatim>\<open>add_response\<close> passes over it.\<close>

record agent_result =
  response :: string
  context_dict :: "(string \<times> string) list"

datatype agent_value = Result agent_result | Opaque

type_synonym response_dict = "(string \<times> agent_value) list"

record NoveltyTracker =
  response_history :: "response_dict list"
  history_maxlen :: nat
  key_frequency :: "string \<Rightarrow> nat"
  value_frequency :: "string \<Rightarrow> nat"
  responses_processed :: nat
  bm_unique_keys :: "string set"
  bm_unique_values :: "string set"
  response_lengths :: "nat list"
  bm_timestamp :: string
  attention_scores :: "real list"
  attention_matrices :: "real list list list"
  is_baseline_period :: bool

text \<open>\<^verbatim>\<open>NoveltyTracker.__init__\<close>; \<open>now\<close> is \<^verbatim>\<open>datetime.now().isoformat()\<close>.\<close>

definition init_tracker :: "nat \<Rightarrow> string \<Rightarrow> NoveltyTracker" where
  "init_tracker history_size now =
     \<lparr> response_history = [], history_maxlen = history_size,
       key_frequency = (\<lambda>_. 0), value_frequency = (\<lambda>_. 0),
       responses_processed = 0, bm_unique_keys = {}, bm_unique_values = {},
       response_lengths = [], bm_timestamp = now,
       attention_scores = [], attention_matrices = [],
       is_baseline_period = True \<rparr>"

text \<open>\<^verbatim>\<open>deque(maxlen=n).append(x)\<close>: the oldest element leaves when the deque is full.\<close>

definition deque_append :: "nat \<Rightarrow> 'a list \<Rightarrow> 'a \<Rightarrow> 'a list" where
  "deque_append n xs x = (if n = 0 then [] else drop (Suc (length xs) - n) (xs @ [x]))"

definition mean :: "real list \<Rightarrow> real" where
  "mean xs = sum_list xs / real (length xs)"

definition np_std :: "real list \<Rightarrow> real" where
  "np_std xs = sqrt (mean (map (\<lambda>x. (x - mean xs)\<^sup>2) xs))"

text \<open>The comprehension both tracker methods start with:
  \<^verbatim>\<open>[line.strip().split(':') for line in text.split('\n') if ':' in line]\<close>.\<close>

definition pairs_of :: "string \<Rightarrow> string list list" where
  "pairs_of text =
     map (\<lambda>line. split_on COLON (strip line))
       (filter (\<lambda>line. COLON \<in> set line) (split_on NL text))"

definition save_baseline_metrics :: "string \<Rightarrow> NoveltyTracker \<Rightarrow> fs_write list" where
  "save_baseline_metrics dataset_file t =
     (let sc = attention_scores t;
          metrics = \<lparr> timestamp = bm_timestamp t,
            total_responses = responses_processed t,
            unique_keys = card (bm_unique_keys t),
            unique_values = card (bm_unique_values t),
            avg_response_length = mean (map real (response_lengths t)),
            key_diversity = real (card (bm_unique_keys t)) / real (responses_processed t),
            value_diversity = real (card (bm_unique_values t)) / real (responses_processed t),
            mean_attention = (if sc = [] then None else Some (mean sc)),
            attention_std = (if sc = [] then None else Some (np_std sc)),
            attention_max = (if sc = [] then None else Some (Max (set sc))),
            attention_min = (if sc = [] then None else Some (Min (set sc))) \<rparr>
      in [(SiblingOf dataset_file ''novelty_baseline.json'', BaselineJson metrics),
          (SiblingOf dataset_file ''attention_baseline.json'',
             AttentionJson (bm_timestamp t) (attention_matrices t))])"

text \<open>The body of \<^verbatim>\<open>if self.is_baseline_period:\<close>, run once per key/value pair; \<open>n\<close> is
  \<^verbatim>\<open>len(pairs)\<close>. The state is the tracker together with the files written so far.\<close>

definition baseline_step ::
  "string \<Rightarrow> real list list option \<Rightarrow> nat \<Rightarrow> string \<Rightarrow> string \<Rightarrow>
   NoveltyTracker \<times> fs_write list \<Rightarrow> NoveltyTracker \<times> fs_write list" where
  "baseline_step dataset_file attention_matrix n k v st =
     (case st of (t, fs) \<Rightarrow>
        let t1 = t\<lparr> bm_unique_keys := insert k (bm_unique_keys t),
                    bm_unique_values := insert v (bm_unique_values t),
                    response_lengths := response_lengths t @ [n],
                    responses_processed := responses_processed t + 1 \<rparr>;
            t2 = (case attention_matrix of
                    None \<Rightarrow> t1
                  | Some m \<Rightarrow>
                      if m = [] then t1
                      else t1\<lparr> attention_scores := attention_scores t1 @ concat m,
                               attention_matrices := attention_matrices t1 @ [m] \<rparr>)
        in if baseline_period \<le> responses_processed t2
           then (t2\<lparr> is_baseline_period := False \<rparr>, fs @ save_baseline_metrics dataset_file t2)
           else (t2, fs))"

text \<open>The loop \<^verbatim>\<open>for k, v in pairs:\<close>. Unpacking a list that does not have exactly two
  elements raises \<^verbatim>\<open>ValueError\<close>; what the earlier pairs changed stays changed.\<close>

fun track_pairs ::
  "string \<Rightarrow> real list list option \<Rightarrow> nat \<Rightarrow> string list list \<Rightarrow>
   NoveltyTracker \<times> fs_write list \<Rightarrow> error option \<times> NoveltyTracker \<times> fs_write list" where
  "track_pairs dataset_file att n [] st = (None, st)"
| "track_pairs dataset_file att n (p # ps) st =
     (case p of
        [k0, v0] \<Rightarrow>
          (case st of (t, fs) \<Rightarrow>
             let k = strip k0; v = strip v0;
                 t1 = t\<lparr> key_frequency := (key_frequency t)(k := key_frequency t k + 1),
                           value_frequency := (value_frequency t)(v := value_frequency t v + 1) \<rparr>;
                 st1 = (if is_baseline_period t1
                        then baseline_step dataset_file att n k v (t1, fs)
                        else (t1, fs))
             in track_pairs dataset_file att n ps st1)
      | _ \<Rightarrow> (Some ValueError, st))"

text \<open>The loop \<^verbatim>\<open>for agent_responses in response_dict.values():\<close>.\<close>

fun track_agents ::
  "string \<Rightarrow> real list list option \<Rightarrow> agent_value list \<Rightarrow>
   NoveltyTracker \<times> fs_write list \<Rightarrow> error option \<times> NoveltyTracker \<times> fs_write list" where
  "track_agents dataset_file att [] st = (None, st)"
| "track_agents dataset_file att (Opaque # vs) st = track_agents dataset_file att vs st"
| "track_agents dataset_file att (Result r # vs) st =
     (let pairs = pairs_of (response r) in
      case track_pairs dataset_file att (length pairs) pairs st of
        (Some e, st') \<Rightarrow> (Some e, st')
      | (None, st') \<Rightarrow> track_agents dataset_file att vs st')"

text \<open>\<^verbatim>\<open>NoveltyTracker.add_response\<close>. The record joins the history only when no pair
  raised.\<close>

definition add_response ::
  "string \<Rightarrow> NoveltyTracker \<times> fs_write list \<Rightarrow> response_dict \<Rightarrow> real list list option \<Rightarrow>
   error option \<times> NoveltyTracker \<times> fs_write list" where
  "add_response dataset_file st response_dict attention_matrix =
     (case track_agents dataset_file attention_matrix (map snd response_dict) st of
        (Some e, st') \<Rightarrow> (Some e, st')
      | (None, (t, fs)) \<Rightarrow>
          (None,
           t\<lparr> response_history :=
                 deque_append (history_maxlen t) (response_history t) response_dict \<rparr>,
           fs))"

text \<open>The loop of \<^verbatim>\<open>get_novelty_score\<close> that fills \<^verbatim>\<open>key_scores\<close> and
  \<^verbatim>\<open>value_scores\<close>.\<close>

fun pair_scores ::
  "NoveltyTracker \<Rightarrow> string list list \<Rightarrow> real list \<Rightarrow> real list \<Rightarrow>
   error + (real list \<times> real list)" where
  "pair_scores t [] key_scores value_scores = Inr (key_scores, value_scores)"
| "pair_scores t (p # ps) key_scores value_scores =
     (case p of
        [k0, v0] \<Rightarrow>
          (let k = strip k0; v = strip v0;
               key_freq = key_frequency t k;
               value_freq = value_frequency t v
           in pair_scores t ps (key_scores @ [1 / (real key_freq + 1)])
                (value_scores @ [1 / (real value_freq + 1)]))
      | _ \<Rightarrow> Inl ValueError)"

text \<open>\<^verbatim>\<open>NoveltyTracker.get_novelty_score\<close>. Python floats are read as exact reals.\<close>

definition get_novelty_score :: "NoveltyTracker \<Rightarrow> string \<Rightarrow> error + real" where
  "get_novelty_score t response_text =
     (let pairs = pairs_of response_text in
      if pairs = [] then Inr 0
      else (case pair_scores t pairs [] [] of
              Inl e \<Rightarrow> Inl e
            | Inr (key_scores, value_scores) \<Rightarrow>
                Inr ((mean key_scores + mean value_scores) / 2)))"

text \<open>A sequence of \<^verbatim>\<open>add_response\<close> calls on one tracker, as the callers make them: a
  call that raised is caught by its caller and the next record is fed to the tracker as
  the failed call left it.\<close>

fun feed ::
  "string \<Rightarrow> NoveltyTracker \<times> fs_write list \<Rightarrow> response_dict list \<Rightarrow>
   NoveltyTracker \<times> fs_write list" where
  "feed dataset_file st [] = st"
| "feed dataset_file st (r # rs) =
     feed dataset_file (snd (add_response dataset_file st r None)) rs"





text \<open>Vocabulary for the latch: while the baseline period lasts nothing has been
  written, and afterwards exactly the two snapshot files have.\<close>

definition latch_ok :: "NoveltyTracker \<times> fs_write list \<Rightarrow> bool" where
  "latch_ok st = (if is_baseline_period (fst st) then snd st = [] else length (snd st) = 2)"


section \<open>The clipboard monitor (llama-stack-clipboard.py)\<close>

subsection \<open>Configuration\<close>

definition min_content_length :: nat where
  "min_content_length = 10"

definition provider_id :: string where
  "provider_id = ''meta-reference''"

definition model_id :: string where
  "model_id = ''meta-llama/Llama-3.2-1B-Instruct''"

definition environment_id :: string where
  "environment_id = ''single-node''"

definition retry_attempts :: nat where
  "retry_attempts = 3"

definition retry_delay :: nat where
  "retry_delay = 5"

definition system_message_text :: string where
  "system_message_text =
     ''You are a poetic assistant, skilled in explaining complex programming concepts with creative flair.''"

record sampling_params =
  strategy :: string
  temperature :: real
  top_p :: real
  top_k :: int
  max_tokens :: int
  repetition_penalty :: real

record inference_params =
  sampling :: sampling_params
  stream :: bool
  tools :: "string list"
  tool_choice :: string
  tool_prompt_format :: string

definition INFERENCE_PARAMS :: inference_params where
  "INFERENCE_PARAMS =
     \<lparr> sampling = \<lparr> strategy = ''greedy'', temperature = 0, top_p = 95 / 100, top_k = 0,
                     max_tokens = 512, repetition_penalty = 1 \<rparr>,
       stream = True, tools = [], tool_choice = ''auto'', tool_prompt_format = ''json'' \<rparr>"

record agent =
  name :: string
  color :: string
  personality :: string
  prompt_template :: string

text \<open>The three prompt templates. Each is one string literal in the source with one
  replacement field; it is written here as the text before the field, the field and the
  text after it.\<close>

definition curator_before :: string where
  "curator_before =
     join [NL]
       [''Analyze content for type and topic changes. Pay special attention to:'',
        ''            - Programming code vs natural language'',
        ''            - Technical documentation vs conversational text'',
        ''            - Structured data vs prose'',
        ''            - Major subject matter shifts'',
        ''            '',
        ''            Rules:'',
        ''            - Each key and value should be 1-3 words maximum'',
        ''            - ALWAYS start with 'content_type' and 'context_shift'' @ [CHR 0x27],
        ''            - If content type changes (e.g. code vs text), ALWAYS mark context_shift as true'',
        ''            - Format as 'key: value'' @ [CHR 0x27],
        ''            '',
        ''            Previous context: '']"

definition curator_after :: string where
  "curator_after =
     join [NL]
       ['''',
        ''            '',
        ''            List the key-value pairs for this content:'']"

definition curator_template :: string where
  "curator_template = curator_before @ ''{prev_thoughts}'' @ curator_after"

definition analyst_before :: string where
  "analyst_before =
     join [NL]
       [''Analyze content structure and complexity while tracking shifts.'',
        ''            '',
        ''            Rules:'',
        ''            - Each key and value should be 1-3 words maximum'',
        ''            - ALWAYS start with 'structure_type' and 'complexity_level'' @ [CHR 0x27],
        ''            - Note dramatic shifts in content structure'',
        ''            - Format as 'key: value'' @ [CHR 0x27],
        ''            '',
        ''            Previous flow: '']"

definition analyst_after :: string where
  "analyst_after =
     join [NL]
       ['''',
        ''            '',
        ''            List the key-value pairs for this analysis:'']"

definition analyst_template :: string where
  "analyst_template = analyst_before @ ''{prev_thoughts}'' @ analyst_after"

definition synthesizer_before :: string where
  "synthesizer_before =
     join [NL]
       [''Synthesize shifts in content type and structure.'',
        ''            '',
        ''            Rules:'',
        ''            - Each key and value should be 1-3 words maximum'',
        ''            - ALWAYS evaluate significance of change'',
        ''            - Format as 'key: value'' @ [CHR 0x27],
        ''            - Add change metrics'',
        ''            '',
        ''            Previous synthesis: '']"

definition synthesizer_after :: string where
  "synthesizer_after =
     join [NL]
       ['''',
        ''            '',
        ''            List the key-value pairs for your synthesis:'']"

definition synthesizer_template :: string where
  "synthesizer_template = synthesizer_before @ ''{prev_thoughts}'' @ synthesizer_after"

text \<open>\<^verbatim>\<open>AGENT_CONFIG\<close>, in the insertion order of the dict literal; the colours are
  colorama's escape sequences.\<close>

definition AGENT_CONFIG :: "(string \<times> agent) list" where
  "AGENT_CONFIG =
     [(''curator'',
       \<lparr> name = ''Curator'', color = CHR 0x1B # ''[35m'',
         personality = ''A detail-oriented observer who detects content type and topic shifts'',
         prompt_template = curator_template \<rparr>),
      (''analyst'',
       \<lparr> name = ''Analyst'', color = CHR 0x1B # ''[33m'',
         personality = ''A technical analyzer who identifies structural patterns'',
         prompt_template = analyst_template \<rparr>),
      (''synthesizer'',
       \<lparr> name = ''Synthesizer'', color = CHR 0x1B # ''[32m'',
         personality = ''An integrator who identifies significant transitions'',
         prompt_template = synthesizer_template \<rparr>)]"

subsection \<open>\<^verbatim>\<open>query_llama_stack\<close>\<close>

text \<open>
  What the client library can do on one attempt: the call raises, or it returns a stream.
  A stream is a list of chunks: one with \<^verbatim>\<open>event.delta\<close>, one with a non-empty
  \<^verbatim>\<open>choices\<close>, one with neither, or the point where iterating raises.
\<close>

datatype chunk = EventDelta string | Choices string | NoText | StreamError string

datatype attempt_outcome = TransportError string | Stream "chunk list"

datatype event = Attempt nat | Sleep nat

record query_result =
  qr_response :: string
  metadata :: "(string \<times> string) list"

text \<open>The loop \<^verbatim>\<open>for chunk in response:\<close> with its \<^verbatim>\<open>seen_facts\<close> set; a chunk without
  text is passed over by \<^verbatim>\<open>continue\<close>, before the length test.\<close>

fun consume :: "chunk list \<Rightarrow> string \<Rightarrow> string set \<Rightarrow> string" where
  "consume [] full_response seen_facts = full_response"
| "consume (StreamError e # cs) full_response seen_facts = full_response"
| "consume (NoText # cs) full_response seen_facts = consume cs full_response seen_facts"
| "consume (EventDelta new_text # cs) full_response seen_facts =
     (let full' = (if new_text \<notin> seen_facts then full_response @ new_text else full_response);
          seen' = (if new_text \<notin> seen_facts then insert new_text seen_facts else seen_facts)
      in if 1000 < length full' then full' else consume cs full' seen')"
| "consume (Choices new_text # cs) full_response seen_facts =
     (let full' = (if new_text \<notin> seen_facts then full_response @ new_text else full_response);
          seen' = (if new_text \<notin> seen_facts then insert new_text seen_facts else seen_facts)
      in if 1000 < length full' then full' else consume cs full' seen')"

text \<open>The loop \<^verbatim>\<open>for attempt in range(retry_attempts):\<close>. \<open>client\<close> gives the outcome of
  each attempt; \<open>now\<close> is \<^verbatim>\<open>datetime.now().isoformat()\<close>. The result is \<open>None\<close> when the
  loop ends without a \<^verbatim>\<open>return\<close>.\<close>

fun query_attempts ::
  "(nat \<Rightarrow> attempt_outcome) \<Rightarrow> string \<Rightarrow> nat list \<Rightarrow> event list \<Rightarrow>
   query_result option \<times> event list" where
  "query_attempts client now [] trace = (None, trace)"
| "query_attempts client now (attempt # rest) trace =
     (case client attempt of
        Stream chunks \<Rightarrow>
          (Some \<lparr> qr_response = strip (consume chunks [] {}),
                  metadata = [(''provider'', provider_id), (''model'', model_id),
                              (''timestamp'', now)] \<rparr>,
           trace @ [Attempt attempt])
      | TransportError e \<Rightarrow>
          if attempt < retry_attempts - 1
          then query_attempts client now rest (trace @ [Attempt attempt, Sleep retry_delay])
          else (Some \<lparr> qr_response = ''Error: Llama Stack server unavailable'',
                       metadata = [(''error'', e)] \<rparr>,
                trace @ [Attempt attempt]))"

definition query_llama_stack ::
  "(nat \<Rightarrow> attempt_outcome) \<Rightarrow> string \<Rightarrow> query_result option \<times> event list" where
  "query_llama_stack client now = query_attempts client now [0..<retry_attempts] []"

subsection \<open>\<^verbatim>\<open>analyze_content_type\<close>\<close>

record content_item =
  type :: string
  content :: string
  hash :: string

definition code_indicators :: "(string \<times> nat) list" where
  "code_indicators =
     [(''import '', 5), (''def '', 3), (''class '', 3), (''return '', 3),
      (''    '', 2), ('');'', 2), (''};'', 2)]"

definition structured_indicators :: "(string \<times> nat) list" where
  "structured_indicators =
     [(''{'', 1), (''}'', 1), (''['', 1), ('']'', 1),
      (CHR 0x22 # ''key'' @ [CHR 0x22], 2), (CHR 0x22 # ''value'' @ [CHR 0x22], 2)]"

definition indicator_score :: "(string \<times> nat) list \<Rightarrow> string \<Rightarrow> nat" where
  "indicator_score table text =
     sum_list (map (\<lambda>(indicator, weight). count_sub indicator text * weight) table)"

definition code_score :: "string \<Rightarrow> nat" where
  "code_score text = indicator_score code_indicators text"

definition structured_score :: "string \<Rightarrow> nat" where
  "structured_score text = indicator_score structured_indicators text"

definition analyze_content_type :: "content_item \<Rightarrow> string" where
  "analyze_content_type item =
     (if type item \<noteq> ''text'' then type item
      else if 10 < code_score (content item) then ''code''
      else if 10 < structured_score (content item) then ''structured_data''
      else ''natural_text'')"

subsection \<open>\<^verbatim>\<open>process_clipboard_content\<close>\<close>

text \<open>
  The world outside: \<open>md5\<close> is \<^verbatim>\<open>hashlib.md5(s.encode()).hexdigest()\<close>, \<open>read_file\<close> the
  bytes of a file, \<open>assets_dir\<close> the expanded \<^verbatim>\<open>ASSETS_DIR\<close>. One poll reads the clipboard text
  and the newest screenshot's path, if there is one. Copying the image into the asset
  store changes no value the function looks at and is left out.
\<close>

record env =
  md5 :: "string \<Rightarrow> string"
  read_file :: "string \<Rightarrow> string"
  assets_dir :: string

definition get_content_hash :: "env \<Rightarrow> string \<Rightarrow> string" where
  "get_content_hash e s = md5 e s"

definition get_image_hash :: "env \<Rightarrow> string \<Rightarrow> string" where
  "get_image_hash e image_path = md5 e (read_file e image_path)"

definition save_image :: "env \<Rightarrow> string \<Rightarrow> string" where
  "save_image e image_path = assets_dir e @ ''/'' @ get_image_hash e image_path @ ''.png''"

text \<open>\<^verbatim>\<open>str(text_content if text_content else latest_screenshot)\<close>.\<close>

definition hashed_text :: "string \<Rightarrow> string option \<Rightarrow> string" where
  "hashed_text text_content latest_screenshot =
     (if text_content \<noteq> [] then text_content
      else (case latest_screenshot of None \<Rightarrow> ''None'' | Some p \<Rightarrow> p))"

definition process_clipboard_content ::
  "env \<Rightarrow> string option \<Rightarrow> string \<Rightarrow> string option \<Rightarrow> content_item option \<times> string option" where
  "process_clipboard_content e last_content_hash text_content latest_screenshot =
     (let current_hash = get_content_hash e (hashed_text text_content latest_screenshot) in
      if Some current_hash = last_content_hash
         \<or> (text_content \<noteq> [] \<and> length text_content < min_content_length)
      then (None, last_content_hash)
      else if text_content \<noteq> []
      then (Some \<lparr> type = ''text'', content = text_content, hash = current_hash \<rparr>,
            Some current_hash)
      else (case latest_screenshot of
              Some p \<Rightarrow>
                (Some \<lparr> type = ''image'', content = save_image e p, hash = current_hash \<rparr>,
                 Some current_hash)
            | None \<Rightarrow> (None, Some current_hash)))"

text \<open>The collector's polls, one after the other: what each returned, and the
  fingerprint left behind.\<close>

fun polls ::
  "env \<Rightarrow> string option \<Rightarrow> (string \<times> string option) list \<Rightarrow>
   content_item option list \<times> string option" where
  "polls e last_hash [] = ([], last_hash)"
| "polls e last_hash ((text_content, latest_screenshot) # rest) =
     (case process_clipboard_content e last_hash text_content latest_screenshot of
        (item, last_hash') \<Rightarrow>
          (case polls e last_hash' rest of (items, final) \<Rightarrow> (item # items, final)))"

subsection \<open>\<^verbatim>\<open>analyze_content\<close> and the dataset\<close>

definition truncate_content :: "string \<Rightarrow> nat \<Rightarrow> string" where
  "truncate_content text max_chars =
     (if length text \<le> max_chars then text else take max_chars text @ ''... [truncated]'')"

text \<open>\<^verbatim>\<open>template.format(prev_thoughts=...)\<close>: each replacement field
  \<^verbatim>\<open>{prev_thoughts}\<close> gives way to the argument, which is not scanned again. The templates
  hold no other brace.\<close>

fun substitute :: "string \<Rightarrow> string \<Rightarrow> string \<Rightarrow> string" where
  "substitute field arg s =
     (if field = [] \<or> s = [] then s
      else if prefix field s then arg @ substitute field arg (drop (length field) s)
      else hd s # substitute field arg (tl s))"

declare substitute.simps [simp del]

definition format_template :: "string \<Rightarrow> string \<Rightarrow> string" where
  "format_template template prev_thoughts = substitute ''{prev_thoughts}'' prev_thoughts template"

text \<open>The comprehension
  \<^verbatim>\<open>[line.strip() for line in thought.split('\n') if ':' in line]\<close>.\<close>

definition kv_lines :: "string \<Rightarrow> string list" where
  "kv_lines thought = map strip (filter (\<lambda>line. COLON \<in> set line) (split_on NL thought))"

text \<open>The loop of \<^verbatim>\<open>format_previous_thoughts\<close>; \<^verbatim>\<open>list(AGENT_CONFIG.keys())[i]\<close> raises
  \<^verbatim>\<open>IndexError\<close> past the last persona.\<close>

fun formatted_blocks :: "nat \<Rightarrow> string list \<Rightarrow> error + string list" where
  "formatted_blocks i [] = Inr []"
| "formatted_blocks i (thought # rest) =
     (if length AGENT_CONFIG \<le> i then Inl IndexError
      else (let agent_name = map fst AGENT_CONFIG ! i;
                kv_pairs = kv_lines thought
            in case formatted_blocks (Suc i) rest of
                 Inl e \<Rightarrow> Inl e
               | Inr bs \<Rightarrow> Inr ((agent_name @ '':'' @ [NL] @ join [NL] kv_pairs) # bs)))"

definition format_previous_thoughts :: "string list \<Rightarrow> error + string" where
  "format_previous_thoughts thoughts =
     (if thoughts = [] then Inr ''no_previous: true''
      else (case formatted_blocks 0 thoughts of
              Inl e \<Rightarrow> Inl e
            | Inr bs \<Rightarrow> Inr (join [NL] bs)))"

text \<open>The prompt of one persona:
  \<^verbatim>\<open>f"Content type detected: {content_type}\n\n" + template.format(prev_thoughts=...) + f"\n\nContent to analyze:\n{truncated_content}"\<close>.\<close>

definition render_prompt :: "string \<Rightarrow> string \<Rightarrow> string \<Rightarrow> string \<Rightarrow> string" where
  "render_prompt content_type template prev_thoughts truncated_content =
     ''Content type detected: '' @ content_type @ [NL, NL]
     @ format_template template prev_thoughts
     @ [NL, NL] @ ''Content to analyze:'' @ [NL] @ truncated_content"

text \<open>
  The loop \<^verbatim>\<open>for agent_id, agent in AGENT_CONFIG.items():\<close>. \<open>query i prompt\<close> is what
  \<^verbatim>\<open>query_llama_stack\<close> returns on the \<open>i\<close>-th call of this analysis. Besides
  \<^verbatim>\<open>final_response\<close> the function hands back the prompts it sent, in order.
\<close>

fun run_agents ::
  "(nat \<Rightarrow> string \<Rightarrow> query_result) \<Rightarrow> content_item \<Rightarrow> string \<Rightarrow> (string \<times> agent) list \<Rightarrow>
   nat \<Rightarrow> string list \<Rightarrow> (string \<times> agent_result) list \<Rightarrow> string list \<Rightarrow>
   error option \<times> (string \<times> agent_result) list \<times> string list" where
  "run_agents query item content_type [] i agents_thoughts final_response prompts =
     (None, final_response, prompts)"
| "run_agents query item content_type ((agent_id, ag) # rest) i agents_thoughts
      final_response prompts =
     (let truncated_content = truncate_content (content item) 512 in
      case format_previous_thoughts agents_thoughts of
        Inl e \<Rightarrow> (Some e, final_response, prompts)
      | Inr prev_thoughts \<Rightarrow>
          (let prompt = render_prompt content_type (prompt_template ag) prev_thoughts
                          truncated_content;
               response_text = strip (qr_response (query i prompt))
           in if response_text = [] \<or> prefix ''Error:'' response_text
              then run_agents query item content_type rest (Suc i) agents_thoughts
                     final_response (prompts @ [prompt])
              else run_agents query item content_type rest (Suc i)
                     (agents_thoughts @ [response_text])
                     (AList.update agent_id
                        \<lparr> response = response_text,
                          context_dict = [(''content_type'', content_type),
                                          (''previous_thoughts'', prev_thoughts),
                                          (''role'', personality ag)] \<rparr>
                        final_response)
                     (prompts @ [prompt])))"

text \<open>\<^verbatim>\<open>analyze_content\<close>: \<open>None\<close> where the \<^verbatim>\<open>except\<close> branch returns \<^verbatim>\<open>None\<close>.\<close>

definition analyze_content ::
  "(nat \<Rightarrow> string \<Rightarrow> query_result) \<Rightarrow> content_item \<Rightarrow>
   (string \<times> agent_result) list option \<times> string list" where
  "analyze_content query item =
     (case run_agents query item (analyze_content_type item) AGENT_CONFIG 0 [] [] [] of
        (Some e, final_response, prompts) \<Rightarrow> (None, prompts)
      | (None, final_response, prompts) \<Rightarrow> (Some final_response, prompts))"

text \<open>Vocabulary for the statements below: a response text the loop keeps, that is,
  one that is neither empty nor an error sentinel.\<close>

definition accepted :: "string \<Rightarrow> bool" where
  "accepted response_text = (response_text \<noteq> [] \<and> \<not> prefix ''Error:'' response_text)"

record llama_stack_metadata =
  provider :: string
  model :: string
  environment :: string
  system_message :: string
  inference :: inference_params

record analysis_metadata =
  agent_count :: nat
  content_type :: string
  content_length :: nat

record dataset_record =
  ds_timestamp :: string
  ds_content :: content_item
  ai_response :: "(string \<times> agent_result) list"
  ds_llama_stack_metadata :: llama_stack_metadata
  ds_analysis_metadata :: analysis_metadata

text \<open>\<^verbatim>\<open>save_to_dataset\<close>: the dataset file is the list of its lines.\<close>

definition save_to_dataset ::
  "string \<Rightarrow> content_item \<Rightarrow> (string \<times> agent_result) list \<Rightarrow> dataset_record list \<Rightarrow>
   dataset_record list" where
  "save_to_dataset now item analysis file =
     file @
     [\<lparr> ds_timestamp = now, ds_content = item, ai_response = analysis,
        ds_llama_stack_metadata =
          \<lparr> provider = provider_id, model = model_id, environment = environment_id,
            system_message = system_message_text, inference = INFERENCE_PARAMS \<rparr>,
        ds_analysis_metadata =
          \<lparr> agent_count = length AGENT_CONFIG, content_type = type item,
            content_length = length (content item) \<rparr> \<rparr>]"

text \<open>One turn of \<^verbatim>\<open>content_processor\<close>: the analysis is saved when it is neither
  \<^verbatim>\<open>None\<close> nor empty.\<close>

definition process_item ::
  "(nat \<Rightarrow> string \<Rightarrow> query_result) \<Rightarrow> string \<Rightarrow> content_item \<Rightarrow> dataset_record list \<Rightarrow>
   dataset_record list" where
  "process_item query now item file =
     (case fst (analyze_content query item) of
        None \<Rightarrow> file
      | Some analysis \<Rightarrow>
          if analysis = [] then file else save_to_dataset now item analysis file)"

text \<open>Vocabulary for the length bound: the text a chunk carries, the longest one of
  a stream, and the stream of an attempt (empty when the call raised).\<close>

fun chunk_len :: "chunk \<Rightarrow> nat" where
  "chunk_len (EventDelta d) = length d"
| "chunk_len (Choices d) = length d"
| "chunk_len NoText = 0"
| "chunk_len (StreamError e) = 0"

fun longest_delta :: "chunk list \<Rightarrow> nat" where
  "longest_delta [] = 0"
| "longest_delta (c # cs) = max (chunk_len c) (longest_delta cs)"

fun stream_of :: "attempt_outcome \<Rightarrow> chunk list" where
  "stream_of (Stream chunks) = chunks"
| "stream_of (TransportError e) = []"

section \<open>Facts about the string operations\<close>



lemma length_strip: "length (strip s) \<le> length s"
proof -
  have "length (strip s) = length (dropWhile isspace (rev (dropWhile isspace s)))"
    by (simp add: strip_def)
  also have "\<dots> \<le> length (rev (dropWhile isspace s))" by (rule length_dropWhile_le)
  also have "\<dots> \<le> length s" by (simp add: length_dropWhile_le)
  finally show ?thesis .
qed

lemma length_two: "length p = 2 \<Longrightarrow> \<exists>a b. p = [a, b]"
  by (cases p; cases "tl p"; cases "tl (tl p)") auto


section \<open>The novelty score\<close>






lemmas py_string_simps = NL_def COLON_def strip_def isspace_def pairs_of_def



text \<open>
  C3. A line with two colons makes both tracker methods raise \<^verbatim>\<open>ValueError\<close>.
  \<^verbatim>\<open>get_novelty_score\<close> returns no score; \<^verbatim>\<open>add_response\<close> stops at the line: the pair
  before it is counted, the pair after it and the next persona's pair are not, and the
  record does not reach the history.
\<close>

theorem malformed_line_raises_ValueError:
  "get_novelty_score (init_tracker 1000 ''t0'') ''time: 12:30'' = Inl ValueError \<and>
   (let r = [(''curator'',
               Result \<lparr> response = ''mood: calm'' @ [NL] @ ''time: 12:30'' @ [NL] @ ''topic: space'',
                        context_dict = [] \<rparr>),
             (''analyst'', Result \<lparr> response = ''level: high'', context_dict = [] \<rparr>)];
        out = add_response ''dataset.jsonl'' (init_tracker 1000 ''t0'', []) r None;
        t = fst (snd out)
    in fst out = Some ValueError \<and>
       key_frequency t ''mood'' = 1 \<and>
       key_frequency t ''time'' = 0 \<and>
       key_frequency t ''topic'' = 0 \<and>
       key_frequency t ''level'' = 0 \<and>
       response_history t = [])"
  by (simp add: get_novelty_score_def add_response_def baseline_step_def init_tracker_def
      baseline_period_def py_string_simps Let_def)

section \<open>Observed frequencies\<close>











section \<open>The classifier\<close>



lemma structured_score_unfold:
  "structured_score text =
     count_sub ''{'' text + count_sub ''}'' text + count_sub ''['' text + count_sub '']'' text
     + count_sub (CHR 0x22 # ''key'' @ [CHR 0x22]) text * 2
     + count_sub (CHR 0x22 # ''value'' @ [CHR 0x22]) text * 2"
  by (simp add: structured_score_def indicator_score_def structured_indicators_def)




section \<open>The deduplication gate\<close>

lemma repeat_is_skipped:
  assumes "process_clipboard_content e last_hash txt shot = (item, l1)"
  shows "process_clipboard_content e l1 txt shot = (None, l1)"
  using assms
  by (auto simp: process_clipboard_content_def Let_def split: if_splits option.splits)

lemma polls_skipped:
  assumes "process_clipboard_content e l1 txt shot = (None, l1)"
  shows "polls e l1 (replicate n (txt, shot)) = (replicate n None, l1)"
  by (induction n) (simp_all add: assms)

text \<open>
  C7, as amended. One poll returns nothing and keeps the last-seen fingerprint when the
  new fingerprint equals it, or when there is clipboard text shorter than
  \<^verbatim>\<open>min_content_length\<close>. Otherwise the fingerprint is replaced by the new one, and the
  text (or, without text, the screenshot) is returned as an item; with neither text nor
  screenshot nothing is returned. Polling the same content again and again, every poll
  after the first returns nothing, and the fingerprint stays what the first poll left.
\<close>

theorem dedup_gate:
  "(let h = get_content_hash e (hashed_text txt shot);
        r = process_clipboard_content e last_hash txt shot
    in (Some h = last_hash \<or> (txt \<noteq> [] \<and> length txt < min_content_length) \<longrightarrow>
          r = (None, last_hash)) \<and>
       (\<not> (Some h = last_hash \<or> (txt \<noteq> [] \<and> length txt < min_content_length)) \<longrightarrow>
          snd r = Some h \<and>
          (txt \<noteq> [] \<longrightarrow> fst r = Some \<lparr> type = ''text'', content = txt, hash = h \<rparr>) \<and>
          (\<forall>p. txt = [] \<and> shot = Some p \<longrightarrow>
             fst r = Some \<lparr> type = ''image'', content = save_image e p, hash = h \<rparr>) \<and>
          (txt = [] \<and> shot = None \<longrightarrow> fst r = None))) \<and>
   (case polls e last_hash (replicate (Suc n) (txt, shot)) of
      (items, final) \<Rightarrow>
        tl items = replicate n None \<and>
        final = snd (process_clipboard_content e last_hash txt shot))"
proof -
  obtain item l1 where first: "process_clipboard_content e last_hash txt shot = (item, l1)"
    by (cases "process_clipboard_content e last_hash txt shot")
  from repeat_is_skipped [OF first]
  have "polls e l1 (replicate n (txt, shot)) = (replicate n None, l1)"
    by (rule polls_skipped)
  then have "polls e last_hash (replicate (Suc n) (txt, shot)) = (item # replicate n None, l1)"
    by (simp add: first)
  then have rep: "case polls e last_hash (replicate (Suc n) (txt, shot)) of
      (items, final) \<Rightarrow>
        tl items = replicate n None \<and>
        final = snd (process_clipboard_content e last_hash txt shot)"
    by (simp add: first)
  have one: "let h = get_content_hash e (hashed_text txt shot);
        r = process_clipboard_content e last_hash txt shot
    in (Some h = last_hash \<or> (txt \<noteq> [] \<and> length txt < min_content_length) \<longrightarrow>
          r = (None, last_hash)) \<and>
       (\<not> (Some h = last_hash \<or> (txt \<noteq> [] \<and> length txt < min_content_length)) \<longrightarrow>
          snd r = Some h \<and>
          (txt \<noteq> [] \<longrightarrow> fst r = Some \<lparr> type = ''text'', content = txt, hash = h \<rparr>) \<and>
          (\<forall>p. txt = [] \<and> shot = Some p \<longrightarrow>
             fst r = Some \<lparr> type = ''image'', content = save_image e p, hash = h \<rparr>) \<and>
          (txt = [] \<and> shot = None \<longrightarrow> fst r = None))"
    by (auto simp: process_clipboard_content_def Let_def split: option.splits)
  from one rep show ?thesis by blast
qed

theorem dedup_gate_witness:
  "(let e = \<lparr> md5 = (\<lambda>s. CHR ''#'' # s), read_file = (\<lambda>p. CHR ''@'' # p), assets_dir = ''/assets'' \<rparr>;
        txt = ''hello world this is a test clipboard entry''
    in process_clipboard_content e (Some (CHR ''#'' # txt)) txt None = (None, Some (CHR ''#'' # txt)) \<and>
       process_clipboard_content e None ''short'' None = (None, None) \<and>
       process_clipboard_content e None txt None
         = (Some \<lparr> type = ''text'', content = txt, hash = CHR ''#'' # txt \<rparr>, Some (CHR ''#'' # txt)) \<and>
       process_clipboard_content e None [] (Some ''/shots/a.png'')
         = (Some \<lparr> type = ''image'', content = ''/assets/#@/shots/a.png.png'',
                    hash = ''#/shots/a.png'' \<rparr>, Some ''#/shots/a.png'') \<and>
       process_clipboard_content e (Some ''#old'') [] None = (None, Some ''#None'') \<and>
       (case polls e None (replicate (Suc 3) (txt, None)) of
          (items, final) \<Rightarrow> tl items = replicate 3 None \<and> final = Some (CHR ''#'' # txt)))"
proof -
  let ?e = "\<lparr> md5 = (\<lambda>s. CHR ''#'' # s), read_file = (\<lambda>p. CHR ''@'' # p), assets_dir = ''/assets'' \<rparr>"
  let ?txt = "''hello world this is a test clipboard entry''"
  note defs = get_content_hash_def hashed_text_def save_image_def get_image_hash_def
    min_content_length_def Let_def
  have a: "process_clipboard_content ?e (Some (CHR ''#'' # ?txt)) ?txt None
      = (None, Some (CHR ''#'' # ?txt))"
    using dedup_gate [of ?e ?txt None "Some (CHR ''#'' # ?txt)" 0] by (simp add: defs)
  have b: "process_clipboard_content ?e None ''short'' None = (None, None)"
    using dedup_gate [of ?e "''short''" None None 0] by (simp add: defs)
  have c: "process_clipboard_content ?e None ?txt None
         = (Some \<lparr> type = ''text'', content = ?txt, hash = CHR ''#'' # ?txt \<rparr>,
            Some (CHR ''#'' # ?txt))"
    using dedup_gate [of ?e ?txt None None 0] by (simp add: defs prod_eq_iff)
  have d: "process_clipboard_content ?e None [] (Some ''/shots/a.png'')
         = (Some \<lparr> type = ''image'', content = ''/assets/#@/shots/a.png.png'',
                    hash = ''#/shots/a.png'' \<rparr>, Some ''#/shots/a.png'')"
    using dedup_gate [of ?e "[]" "Some ''/shots/a.png''" None 0] by (simp add: defs prod_eq_iff)
  have n: "process_clipboard_content ?e (Some ''#old'') [] None = (None, Some ''#None'')"
    using dedup_gate [of ?e "[]" None "Some ''#old''" 0] by (simp add: defs prod_eq_iff)
  have r: "case polls ?e None (replicate (Suc 3) (?txt, None)) of
          (items, final) \<Rightarrow> tl items = replicate 3 None \<and> final = Some (CHR ''#'' # ?txt)"
    using dedup_gate [of ?e ?txt None None 3, THEN conjunct2] by (simp only: c snd_conv)
  show ?thesis
    unfolding Let_def using a b c d n r by blast
qed


theorem empty_poll_moves_fingerprint:
  "process_clipboard_content
     \<lparr> md5 = (\<lambda>s. CHR ''#'' # s), read_file = (\<lambda>p. CHR ''@'' # p), assets_dir = ''/assets'' \<rparr>
     None [] None = (None, Some ''#None'')"
  by (simp add: process_clipboard_content_def get_content_hash_def hashed_text_def)

section \<open>The inference adapter\<close>

lemma attempt_range: "[0..<retry_attempts] = [0, 1, 2]"
  by (simp add: retry_attempts_def upt_rec)

lemma consume_bound:
  "length full \<le> 1000 \<Longrightarrow> length (consume chunks full seen) \<le> 1000 + longest_delta chunks"
proof (induction chunks full seen rule: consume.induct)
  case (1 full seen)
  then show ?case by simp
next
  case (2 e cs full seen)
  then show ?case by simp
next
  case (3 cs full seen)
  then show ?case by simp
next
  case (4 d cs full seen)
  let ?full' = "if d \<notin> seen then full @ d else full"
  let ?seen' = "if d \<notin> seen then insert d seen else seen"
  show ?case
  proof (cases "1000 < length ?full'")
    case True
    have "length ?full' \<le> 1000 + length d" using "4.prems" by simp
    with True show ?thesis by (simp add: Let_def)
  next
    case False
    then have "length ?full' \<le> 1000" by simp
    from "4.IH" [OF refl refl False this]
    have "length (consume cs ?full' ?seen') \<le> 1000 + longest_delta cs" .
    with False show ?thesis by (simp add: Let_def)
  qed
next
  case (5 d cs full seen)
  let ?full' = "if d \<notin> seen then full @ d else full"
  let ?seen' = "if d \<notin> seen then insert d seen else seen"
  show ?case
  proof (cases "1000 < length ?full'")
    case True
    have "length ?full' \<le> 1000 + length d" using "5.prems" by simp
    with True show ?thesis by (simp add: Let_def)
  next
    case False
    then have "length ?full' \<le> 1000" by simp
    from "5.IH" [OF refl refl False this]
    have "length (consume cs ?full' ?seen') \<le> 1000 + longest_delta cs" .
    with False show ?thesis by (simp add: Let_def)
  qed
qed

lemma query_attempts_result:
  "set attempts \<subseteq> {..<retry_attempts} \<Longrightarrow> retry_attempts - 1 \<in> set attempts \<Longrightarrow>
   \<exists>r. fst (query_attempts client now attempts trace) = Some r \<and>
       (qr_response r = ''Error: Llama Stack server unavailable'' \<or>
        (\<exists>i \<in> set attempts. qr_response r = strip (consume (stream_of (client i)) [] {})))"
proof (induction attempts arbitrary: trace)
  case Nil
  then show ?case by simp
next
  case (Cons a rest)
  show ?case
  proof (cases "client a")
    case (Stream chunks)
    then show ?thesis by simp
  next
    case (TransportError e)
    show ?thesis
    proof (cases "a < retry_attempts - 1")
      case True
      with Cons.prems have "set rest \<subseteq> {..<retry_attempts}" "retry_attempts - 1 \<in> set rest"
        by auto
      from Cons.IH [OF this, of "trace @ [Attempt a, Sleep retry_delay]"] True TransportError
      show ?thesis by auto
    next
      case False
      with TransportError show ?thesis by simp
    qed
  qed
qed


lemma strip_clean_ends:
  assumes "s \<noteq> []" "\<not> isspace (hd s)" "\<not> isspace (last s)"
  shows "strip s = s"
proof -
  have "dropWhile isspace s = s" using assms(2) by (simp add: dropWhile_eq_self_iff)
  moreover have "dropWhile isspace (rev s) = rev s"
    using assms(1,3) by (simp add: dropWhile_eq_self_iff hd_rev)
  ultimately show ?thesis by (simp add: strip_def)
qed

text \<open>
  C8. When every attempt raises a transport error, the adapter makes the three attempts
  with a sleep of \<^verbatim>\<open>retry_delay\<close> seconds after the first and after the second, and returns
  the sentinel whose \<^verbatim>\<open>'response'\<close> starts with \<^verbatim>\<open>Error:\<close>. Whatever the client does, the
  adapter returns a response.
\<close>

theorem transport_errors_exhaust_retries:
  "((\<forall>i < retry_attempts. client i = TransportError (msg i)) \<longrightarrow>
      query_llama_stack client now =
        (Some \<lparr> qr_response = ''Error: Llama Stack server unavailable'',
                metadata = [(''error'', msg 2)] \<rparr>,
         [Attempt 0, Sleep 5, Attempt 1, Sleep 5, Attempt 2]) \<and>
      prefix ''Error:'' (qr_response (the (fst (query_llama_stack client now))))) \<and>
   retry_attempts = 3 \<and> retry_delay = 5 \<and>
   (\<exists>r. fst (query_llama_stack client now) = Some r)"
proof (intro conjI impI)
  assume a: "\<forall>i < retry_attempts. client i = TransportError (msg i)"
  then have "client 0 = TransportError (msg 0)" "client 1 = TransportError (msg 1)"
    "client 2 = TransportError (msg 2)"
    by (simp_all add: retry_attempts_def)
  then show q: "query_llama_stack client now =
        (Some \<lparr> qr_response = ''Error: Llama Stack server unavailable'',
                metadata = [(''error'', msg 2)] \<rparr>,
         [Attempt 0, Sleep 5, Attempt 1, Sleep 5, Attempt 2])"
    unfolding query_llama_stack_def attempt_range
    by (simp add: retry_attempts_def retry_delay_def)
  show "prefix ''Error:'' (qr_response (the (fst (query_llama_stack client now))))"
    unfolding q by simp
next
  show "retry_attempts = 3" by (simp add: retry_attempts_def)
  show "retry_delay = 5" by (simp add: retry_delay_def)
  have "set [0..<retry_attempts] \<subseteq> {..<retry_attempts}" by auto
  moreover have "retry_attempts - 1 \<in> set [0..<retry_attempts]"
    by (simp add: retry_attempts_def)
  ultimately show "\<exists>r. fst (query_llama_stack client now) = Some r"
    unfolding query_llama_stack_def
    using query_attempts_result [of "[0..<retry_attempts]" client now "[]"] by blast
qed

theorem transport_errors_exhaust_retries_witness:
  "query_llama_stack (\<lambda>i. TransportError ''connection refused'') ''t0'' =
     (Some \<lparr> qr_response = ''Error: Llama Stack server unavailable'',
             metadata = [(''error'', ''connection refused'')] \<rparr>,
      [Attempt 0, Sleep 5, Attempt 1, Sleep 5, Attempt 2])"
proof -
  have h: "\<forall>i < retry_attempts. (\<lambda>i. TransportError ''connection refused'') i
        = TransportError ((\<lambda>i. ''connection refused'') i)"
    by simp
  from transport_errors_exhaust_retries
         [of "\<lambda>i. TransportError ''connection refused''" "\<lambda>i. ''connection refused''" "''t0''"] h
  show ?thesis by simp
qed

theorem long_delta_exceeds_ceiling:
  "fst (query_llama_stack (\<lambda>i. Stream [EventDelta (replicate 1001 (CHR ''a''))]) ''t0'')
     = Some \<lparr> qr_response = replicate 1001 (CHR ''a''),
              metadata = [(''provider'', provider_id), (''model'', model_id),
                          (''timestamp'', ''t0'')] \<rparr> \<and>
   length (replicate 1001 (CHR ''a'')) = 1001"
proof -
  have "strip (replicate 1001 (CHR ''a'')) = replicate 1001 (CHR ''a'')"
    by (rule strip_clean_ends) (simp_all add: isspace_def)
  then show ?thesis
    unfolding query_llama_stack_def attempt_range by simp
qed

text \<open>
  C9, as amended. The adapter appends the deltas in order, leaves out a delta equal to
  one it has appended before, and stops reading as soon as the text is longer than 1000
  characters. The response it returns is at most 1000 characters plus the length of the
  longest delta offered by the client.
\<close>

theorem response_length_bound:
  "(\<exists>r. fst (query_llama_stack client now) = Some r \<and>
        length (qr_response r)
          \<le> 1000 + Max ((\<lambda>i. longest_delta (stream_of (client i))) ` {..<retry_attempts})) \<and>
   (d \<in> seen \<and> length full \<le> 1000 \<longrightarrow>
      consume (EventDelta d # cs) full seen = consume cs full seen \<and>
      consume (Choices d # cs) full seen = consume cs full seen) \<and>
   (d \<notin> seen \<and> length (full @ d) \<le> 1000 \<longrightarrow>
      consume (EventDelta d # cs) full seen = consume cs (full @ d) (insert d seen)) \<and>
   (1000 < length (full @ d) \<and> d \<notin> seen \<longrightarrow> consume (EventDelta d # cs) full seen = full @ d)"
proof (intro conjI impI)
  let ?M = "Max ((\<lambda>i. longest_delta (stream_of (client i))) ` {..<retry_attempts})"
  have "set [0..<retry_attempts] \<subseteq> {..<retry_attempts}" by auto
  moreover have "retry_attempts - 1 \<in> set [0..<retry_attempts]"
    by (simp add: retry_attempts_def)
  ultimately obtain r where r: "fst (query_llama_stack client now) = Some r"
    and alt: "qr_response r = ''Error: Llama Stack server unavailable'' \<or>
        (\<exists>i \<in> set [0..<retry_attempts]. qr_response r = strip (consume (stream_of (client i)) [] {}))"
    unfolding query_llama_stack_def
    using query_attempts_result [of "[0..<retry_attempts]" client now "[]"] by blast
  from alt have "length (qr_response r) \<le> 1000 + ?M"
  proof
    assume "qr_response r = ''Error: Llama Stack server unavailable''"
    then show ?thesis by simp
  next
    assume "\<exists>i \<in> set [0..<retry_attempts]. qr_response r = strip (consume (stream_of (client i)) [] {})"
    then obtain i where i: "i < retry_attempts"
      and q: "qr_response r = strip (consume (stream_of (client i)) [] {})" by auto
    have "length (qr_response r) \<le> length (consume (stream_of (client i)) [] {})"
      unfolding q by (rule length_strip)
    also have "\<dots> \<le> 1000 + longest_delta (stream_of (client i))"
      by (rule consume_bound) simp
    also have "longest_delta (stream_of (client i)) \<le> ?M"
      using i by (intro Max_ge) auto
    finally show ?thesis by simp
  qed
  with r show "\<exists>r. fst (query_llama_stack client now) = Some r \<and> length (qr_response r) \<le> 1000 + ?M"
    by blast
next
  assume "d \<in> seen \<and> length full \<le> 1000"
  then show "consume (EventDelta d # cs) full seen = consume cs full seen"
    "consume (Choices d # cs) full seen = consume cs full seen"
    by (simp_all add: Let_def)
next
  assume "d \<notin> seen \<and> length (full @ d) \<le> 1000"
  then show "consume (EventDelta d # cs) full seen = consume cs (full @ d) (insert d seen)"
    by (simp add: Let_def)
next
  assume "1000 < length (full @ d) \<and> d \<notin> seen"
  then show "consume (EventDelta d # cs) full seen = full @ d"
    by (simp add: Let_def)
qed

theorem response_length_bound_witness:
  "consume [EventDelta ''ab'', EventDelta ''ab'', Choices ''cd''] [] {} = ''abcd'' \<and>
   consume [EventDelta (replicate 1001 (CHR ''a'')), EventDelta ''b''] [] {}
     = replicate 1001 (CHR ''a'')"
proof -
  have 1: "consume [EventDelta ''ab'', EventDelta ''ab'', Choices ''cd''] [] {}
      = consume [EventDelta ''ab'', Choices ''cd''] ''ab'' {''ab''}"
    using response_length_bound [of "\<lambda>i. Stream []" "''t0''" "''ab''" "{}" "[]"
        "[EventDelta ''ab'', Choices ''cd'']"]
    by simp
  have 2: "consume [EventDelta ''ab'', Choices ''cd''] ''ab'' {''ab''}
      = consume [Choices ''cd''] ''ab'' {''ab''}"
    using response_length_bound [of "\<lambda>i. Stream []" "''t0''" "''ab''" "{''ab''}" "''ab''"
        "[Choices ''cd'']"]
    by simp
  have 3: "consume [EventDelta (replicate 1001 (CHR ''a'')), EventDelta ''b''] [] {}
     = replicate 1001 (CHR ''a'')"
    using response_length_bound [of "\<lambda>i. Stream []" "''t0''" "replicate 1001 (CHR ''a'')" "{}" "[]"
        "[EventDelta ''b'']"]
    by simp
  have "consume [Choices ''cd''] ''ab'' {''ab''} = ''abcd''" by (simp add: Let_def)
  with 1 2 3 show ?thesis by simp
qed

section \<open>The analysis of one item\<close>






lemma blocks_one: "formatted_blocks 0 [a] = Inr [''curator:'' @ [NL] @ join [NL] (kv_lines a)]"
  by (simp add: AGENT_CONFIG_def)

lemma blocks_two:
  "formatted_blocks 0 [a, b] =
     Inr [''curator:'' @ [NL] @ join [NL] (kv_lines a), ''analyst:'' @ [NL] @ join [NL] (kv_lines b)]"
  by (simp add: AGENT_CONFIG_def)

lemma previous_thoughts_cases:
  "format_previous_thoughts [] = Inr ''no_previous: true''"
  "format_previous_thoughts [a] = Inr (''curator:'' @ [NL] @ join [NL] (kv_lines a))"
  "format_previous_thoughts [a, b] =
     Inr (''curator:'' @ [NL] @ join [NL] (kv_lines a) @ [NL]
          @ ''analyst:'' @ [NL] @ join [NL] (kv_lines b))"
  by (simp_all add: format_previous_thoughts_def blocks_one blocks_two del: formatted_blocks.simps)

lemma run_agents_step:
  assumes "format_previous_thoughts th = Inr prev"
  shows "run_agents query item ct ((aid, ag) # rest) i th final ps =
      (let prompt = render_prompt ct (prompt_template ag) prev (truncate_content (content item) 512);
           reply = strip (qr_response (query i prompt))
       in run_agents query item ct rest (Suc i)
            (if accepted reply then th @ [reply] else th)
            (if accepted reply
             then AList.update aid
                    \<lparr> response = reply,
                      context_dict = [(''content_type'', ct), (''previous_thoughts'', prev),
                                      (''role'', personality ag)] \<rparr> final
             else final)
            (ps @ [prompt]))"
  using assms by (simp add: Let_def accepted_def)

text \<open>The loop over the three personas, unrolled: the prompts, the replies and the
  three states of \<^verbatim>\<open>final_response\<close>.\<close>

lemma analyze_content_unrolled:
  fixes query item
  defines "ct \<equiv> analyze_content_type item"
  defines "tr \<equiv> truncate_content (content item) 512"
  defines "p0 \<equiv> render_prompt ct curator_template ''no_previous: true'' tr"
  defines "r0 \<equiv> strip (qr_response (query 0 p0))"
  defines "th1 \<equiv> (if accepted r0 then [r0] else [])"
  defines "fin1 \<equiv>
      (if accepted r0
       then AList.update ''curator''
              \<lparr> response = r0,
                context_dict = [(''content_type'', ct), (''previous_thoughts'', ''no_previous: true''),
                                (''role'', personality (snd (AGENT_CONFIG ! 0)))] \<rparr> []
       else [])"
  defines "p1 \<equiv> render_prompt ct analyst_template (projr (format_previous_thoughts th1)) tr"
  defines "r1 \<equiv> strip (qr_response (query 1 p1))"
  defines "th2 \<equiv> (if accepted r1 then th1 @ [r1] else th1)"
  defines "fin2 \<equiv>
      (if accepted r1
       then AList.update ''analyst''
              \<lparr> response = r1,
                context_dict = [(''content_type'', ct),
                                (''previous_thoughts'', projr (format_previous_thoughts th1)),
                                (''role'', personality (snd (AGENT_CONFIG ! 1)))] \<rparr> fin1
       else fin1)"
  defines "p2 \<equiv> render_prompt ct synthesizer_template (projr (format_previous_thoughts th2)) tr"
  defines "r2 \<equiv> strip (qr_response (query 2 p2))"
  defines "fin3 \<equiv>
      (if accepted r2
       then AList.update ''synthesizer''
              \<lparr> response = r2,
                context_dict = [(''content_type'', ct),
                                (''previous_thoughts'', projr (format_previous_thoughts th2)),
                                (''role'', personality (snd (AGENT_CONFIG ! 2)))] \<rparr> fin2
       else fin2)"
  shows "analyze_content query item = (Some fin3, [p0, p1, p2])"
proof -
  have f0: "format_previous_thoughts [] = Inr ''no_previous: true''"
    by (rule previous_thoughts_cases)
  have f1: "format_previous_thoughts th1 = Inr (projr (format_previous_thoughts th1))"
    by (simp add: th1_def previous_thoughts_cases)
  have f2: "format_previous_thoughts th2 = Inr (projr (format_previous_thoughts th2))"
    by (simp add: th2_def th1_def previous_thoughts_cases)
  define ag0 where "ag0 = snd (AGENT_CONFIG ! 0)"
  define ag1 where "ag1 = snd (AGENT_CONFIG ! 1)"
  define ag2 where "ag2 = snd (AGENT_CONFIG ! 2)"
  have cfg: "AGENT_CONFIG = [(''curator'', ag0), (''analyst'', ag1), (''synthesizer'', ag2)]"
    by (simp add: AGENT_CONFIG_def ag0_def ag1_def ag2_def)
  have tpl: "prompt_template (snd (AGENT_CONFIG ! 0)) = curator_template"
    "prompt_template (snd (AGENT_CONFIG ! Suc 0)) = analyst_template"
    "prompt_template (snd (AGENT_CONFIG ! Suc (Suc 0))) = synthesizer_template"
    by (simp_all add: AGENT_CONFIG_def)
  define th3 where "th3 = (if accepted r2 then th2 @ [r2] else th2)"
  have e0:
    "run_agents query item ct [(''curator'', ag0), (''analyst'', ag1), (''synthesizer'', ag2)] 0 [] [] []
       = run_agents query item ct [(''analyst'', ag1), (''synthesizer'', ag2)] (Suc 0) th1 fin1 [p0]"
    by (subst run_agents_step [OF f0])
       (simp add: Let_def tpl p0_def r0_def th1_def fin1_def tr_def ag0_def del: run_agents.simps)
  have e1:
    "run_agents query item ct [(''analyst'', ag1), (''synthesizer'', ag2)] (Suc 0) th1 fin1 [p0]
       = run_agents query item ct [(''synthesizer'', ag2)] (Suc (Suc 0)) th2 fin2 [p0, p1]"
    by (subst run_agents_step [OF f1])
       (simp add: Let_def tpl p1_def r1_def th2_def fin2_def tr_def ag1_def del: run_agents.simps)
  have e2:
    "run_agents query item ct [(''synthesizer'', ag2)] (Suc (Suc 0)) th2 fin2 [p0, p1]
       = run_agents query item ct [] (Suc (Suc (Suc 0))) th3 fin3 [p0, p1, p2]"
    by (subst run_agents_step [OF f2])
       (simp add: Let_def tpl p2_def r2_def th3_def fin3_def tr_def ag2_def numeral_2_eq_2
          del: run_agents.simps)
  have "run_agents query item ct AGENT_CONFIG 0 [] [] [] = (None, fin3, [p0, p1, p2])"
    unfolding cfg e0 e1 e2 by simp
  then show ?thesis
    by (simp add: analyze_content_def ct_def)
qed




section \<open>The dataset record\<close>

lemma length_update_le: "length (AList.update k v al) \<le> Suc (length al)"
  by (induction al) auto

text \<open>
  C10. Every record \<^verbatim>\<open>save_to_dataset\<close> appends carries \<^verbatim>\<open>agent_count = 3\<close>, the number of
  configured personas, whatever analysis it is given. A turn of the processor either
  leaves the file alone or appends the record of an analysis with at most three entries.
\<close>

theorem agent_count_is_static:
  "agent_count (ds_analysis_metadata (last (save_to_dataset now item analysis file))) = 3 \<and>
   length AGENT_CONFIG = 3 \<and>
   ai_response (last (save_to_dataset now item analysis file)) = analysis \<and>
   butlast (save_to_dataset now item analysis file) = file \<and>
   (\<exists>a. fst (analyze_content query item) = Some a \<and> length a \<le> 3 \<and>
        process_item query now item file
          = (if a = [] then file else save_to_dataset now item a file))"
proof -
  obtain a ps where un: "analyze_content query item = (Some a, ps)" and "length a \<le> 3"
  proof -
    have "\<exists>a1 a2 a3 ps k1 v1 k2 v2 k3 v3 c1 c2 c3.
        analyze_content query item = (Some a3, ps) \<and>
        a1 = (if c1 then AList.update k1 v1 [] else []) \<and>
        a2 = (if c2 then AList.update k2 v2 a1 else a1) \<and>
        a3 = (if c3 then AList.update k3 v3 a2 else a2)"
      using analyze_content_unrolled [of query item] by blast
    then obtain a1 a2 a3 ps k1 v1 k2 v2 k3 v3 c1 c2 c3 where
      r: "analyze_content query item = (Some a3, ps)"
      and a1: "a1 = (if c1 then AList.update k1 v1 [] else [])"
      and a2: "a2 = (if c2 then AList.update k2 v2 a1 else a1)"
      and a3: "a3 = (if c3 then AList.update k3 v3 a2 else a2)"
      by blast
    have "length a1 \<le> 1" by (simp add: a1)
    moreover have "length a2 \<le> Suc (length a1)"
      using length_update_le [of k2 v2 a1] by (simp add: a2)
    moreover have "length a3 \<le> Suc (length a2)"
      using length_update_le [of k3 v3 a2] by (simp add: a3)
    ultimately have "length a3 \<le> 3" by simp
    with r that show ?thesis by blast
  qed
  then have "fst (analyze_content query item) = Some a \<and> length a \<le> 3 \<and>
        process_item query now item file
          = (if a = [] then file else save_to_dataset now item a file)"
    by (simp add: process_item_def)
  then show ?thesis
    by (auto simp: save_to_dataset_def AGENT_CONFIG_def)
qed

theorem agent_count_is_static_witness:
  "(let item = \<lparr> type = ''image'', content = ''/assets/a.png'', hash = ''h'' \<rparr>;
        query = (\<lambda>i p. \<lparr> qr_response = (if i = 0 then ''Error: Llama Stack server unavailable''
                                          else ''key: value''),
                          metadata = [] \<rparr>);
        file = process_item query ''t0'' item []
    in length file = 1 \<and>
       map fst (ai_response (last file)) = [''analyst'', ''synthesizer''] \<and>
       agent_count (ds_analysis_metadata (last file)) = 3)"
proof -
  let ?item = "\<lparr> type = ''image'', content = ''/assets/a.png'', hash = ''h'' \<rparr>"
  let ?query = "\<lambda>(i::nat) (p::string).
      \<lparr> qr_response = (if i = 0 then ''Error: Llama Stack server unavailable'' else ''key: value''),
        metadata = [] \<rparr>"
  have s1: "strip ''key: value'' = ''key: value''"
    and s2: "strip ''Error: Llama Stack server unavailable'' = ''Error: Llama Stack server unavailable''"
    by (simp_all add: py_string_simps)
  have a1: "accepted ''key: value''"
    and a2: "\<not> accepted ''Error: Llama Stack server unavailable''"
    by (simp_all add: accepted_def)
  obtain a where a: "fst (analyze_content ?query ?item) = Some a"
    and keys: "map fst a = [''analyst'', ''synthesizer'']"
    using analyze_content_unrolled [of ?query ?item]
    by (simp add: s1 s2 a1 a2)
  from keys have ne: "a \<noteq> []" by auto
  from agent_count_is_static [of "''t0''" ?item a "[]" ?query] a ne
  have "agent_count (ds_analysis_metadata (last (save_to_dataset ''t0'' ?item a []))) = 3"
    and "ai_response (last (save_to_dataset ''t0'' ?item a [])) = a"
    and "butlast (save_to_dataset ''t0'' ?item a []) = []"
    and "process_item ?query ''t0'' ?item [] = save_to_dataset ''t0'' ?item a []"
    by simp_all
  moreover have "length (save_to_dataset ''t0'' ?item a []) = 1"
    by (simp add: save_to_dataset_def)
  ultimately show ?thesis
    unfolding Let_def using keys by simp
qed

section \<open>The baseline snapshot\<close>

lemma baseline_step_latch:
  "is_baseline_period t \<Longrightarrow> latch_ok (t, fs) \<Longrightarrow> latch_ok (baseline_step df att n k v (t, fs))"
  by (simp add: baseline_step_def latch_ok_def Let_def save_baseline_metrics_def
      split: option.splits)

lemma track_pairs_latch:
  "latch_ok st \<Longrightarrow> latch_ok (snd (track_pairs df att n ps st))"
proof (induction ps arbitrary: st)
  case Nil
  then show ?case by simp
next
  case (Cons p ps)
  obtain t fs where st: "st = (t, fs)" by (cases st)
  show ?case
  proof (cases "length p = 2")
    case True
    then obtain a b where p: "p = [a, b]" using length_two by blast
    define t1 where "t1 = t\<lparr> key_frequency := (key_frequency t)(strip a := key_frequency t (strip a) + 1),
       value_frequency := (value_frequency t)(strip b := value_frequency t (strip b) + 1) \<rparr>"
    define st1 where "st1 = (if is_baseline_period t1
       then baseline_step df att n (strip a) (strip b) (t1, fs) else (t1, fs))"
    have "latch_ok (t1, fs)"
      using Cons.prems by (auto simp: st t1_def latch_ok_def split: if_splits)
    then have "latch_ok st1" by (simp add: st1_def baseline_step_latch)
    moreover have "track_pairs df att n (p # ps) st = track_pairs df att n ps st1"
      by (simp add: st p Let_def st1_def t1_def)
    ultimately show ?thesis using Cons.IH by simp
  next
    case False
    then have "track_pairs df att n (p # ps) st = (Some ValueError, st)"
      by (cases p; cases "tl p"; cases "tl (tl p)") auto
    with Cons.prems show ?thesis by simp
  qed
qed

lemma track_agents_latch:
  "latch_ok st \<Longrightarrow> latch_ok (snd (track_agents df att vs st))"
proof (induction vs arbitrary: st)
  case Nil
  then show ?case by simp
next
  case (Cons x vs)
  show ?case
  proof (cases x)
    case Opaque
    with Cons show ?thesis by simp
  next
    case (Result e)
    obtain err st' where res:
      "track_pairs df att (length (pairs_of (response e))) (pairs_of (response e)) st = (err, st')"
      by (cases "track_pairs df att (length (pairs_of (response e))) (pairs_of (response e)) st")
    have l: "latch_ok st'"
      using track_pairs_latch [OF Cons.prems, of df att "length (pairs_of (response e))"
          "pairs_of (response e)"] by (simp add: res)
    show ?thesis
    proof (cases err)
      case None
      then have "track_agents df att (x # vs) st = track_agents df att vs st'"
        by (simp add: Result Let_def res del: track_pairs.simps)
      with Cons.IH [OF l] show ?thesis by simp
    next
      case (Some y)
      then have "track_agents df att (x # vs) st = (Some y, st')"
        by (simp add: Result Let_def res del: track_pairs.simps)
      with l show ?thesis by simp
    qed
  qed
qed

lemma add_response_latch:
  assumes "latch_ok st"
  shows "latch_ok (snd (add_response df st r att))"
proof -
  obtain err t fs where res: "track_agents df att (map snd r) st = (err, t, fs)"
    by (cases "track_agents df att (map snd r) st") auto
  have l: "latch_ok (t, fs)"
    using track_agents_latch [OF assms, of df att "map snd r"] by (simp add: res)
  show ?thesis
  proof (cases err)
    case None
    then show ?thesis
      using l by (auto simp: add_response_def res latch_ok_def split: if_splits)
  next
    case (Some y)
    then show ?thesis
      using l by (simp add: add_response_def res)
  qed
qed

text \<open>The latch: whatever is fed to a fresh tracker, the two snapshot files are written
  at most once, and they have been written exactly when the latch is off.\<close>

lemma snapshot_at_most_once:
  "latch_ok st \<Longrightarrow> latch_ok (feed df st rs)"
  by (induction rs arbitrary: st) (simp_all add: add_response_latch)

lemma fresh_latch_ok: "latch_ok (init_tracker n now, [])"
  by (simp add: latch_ok_def init_tracker_def)














end
